theory Spec2Isabelle
  imports Main "HOL-Library.Sublist"
begin

section \<open>Time and the file system the program sees\<close>

text \<open>
  Instants (\<^verbatim>\<open>time.Time\<close>) and durations (\<^verbatim>\<open>time.Duration\<close>) are integers counting
  nanoseconds; \<^verbatim>\<open>time.Now()\<close> is a parameter \<open>now\<close> of every operation that reads the
  clock. \<^verbatim>\<open>a.After(b)\<close> is \<open>b < a\<close> and \<^verbatim>\<open>a.Before(b)\<close> is \<open>a < b\<close>.
\<close>

type_synonym time = int

definition Second :: int where
  "Second = 1000000000"

text \<open>
  Package \<^verbatim>\<open>os\<close> is modelled by a small explicit file system. A file holds bytes, seen
  through \<^verbatim>\<open>encoding/json\<close>: either the encoding of a value of the type the reader
  unmarshals into (what \<^verbatim>\<open>json.MarshalIndent\<close> wrote, which \<^verbatim>\<open>json.Unmarshal\<close> reads
  back), or bytes that are not such an encoding. A directory entry is a file, a file
  the process may not read, or a subdirectory. A directory is absent (and can or cannot
  be created), inaccessible, or present with its listing; its flag says whether
  creating, overwriting and removing entries in it is permitted. A path is a directory
  and a base name (\<^verbatim>\<open>filepath.Join(dir, name)\<close>).
\<close>

datatype 'a bytes = Marshalled 'a | Junk nat

datatype 'a node = SubDir | NoPerm | File "'a bytes"

datatype 'a fsdir = NoDir bool | Locked | Dir bool "(string \<times> 'a node) list"

datatype oserr = ErrNotExist | ErrOther

type_synonym path = "string \<times> string"

type_synonym 'a fsys = "string \<Rightarrow> 'a fsdir"

fun Unmarshal :: "'a bytes \<Rightarrow> 'a option" where
  "Unmarshal (Marshalled x) = Some x"
| "Unmarshal (Junk n) = None"

fun read_node :: "'a node \<Rightarrow> oserr + 'a bytes" where
  "read_node SubDir = Inl ErrOther"
| "read_node NoPerm = Inl ErrOther"
| "read_node (File b) = Inr b"

fun find_node :: "'a fsdir \<Rightarrow> string \<Rightarrow> oserr + 'a node" where
  "find_node (NoDir c) name = Inl ErrNotExist"
| "find_node Locked name = Inl ErrOther"
| "find_node (Dir w es) name =
     (case map_of es name of None \<Rightarrow> Inl ErrNotExist | Some nd \<Rightarrow> Inr nd)"

definition ReadFile :: "'a fsys \<Rightarrow> path \<Rightarrow> oserr + 'a bytes" where
  "ReadFile fs p =
     (case find_node (fs (fst p)) (snd p) of
        Inl e \<Rightarrow> Inl e
      | Inr nd \<Rightarrow> read_node nd)"

definition drop_entry :: "string \<Rightarrow> (string \<times> 'a node) list \<Rightarrow> (string \<times> 'a node) list" where
  "drop_entry name es = filter (\<lambda>e. fst e \<noteq> name) es"

text \<open>\<^verbatim>\<open>os.Remove\<close>: the error (if any) and the file system afterwards.\<close>

definition Remove :: "'a fsys \<Rightarrow> path \<Rightarrow> oserr option \<times> 'a fsys" where
  "Remove fs p =
     (case fs (fst p) of
        NoDir c \<Rightarrow> (Some ErrNotExist, fs)
      | Locked \<Rightarrow> (Some ErrOther, fs)
      | Dir w es \<Rightarrow>
          (case map_of es (snd p) of
             None \<Rightarrow> (Some ErrNotExist, fs)
           | Some nd \<Rightarrow>
               if w then (None, fs(fst p := Dir w (drop_entry (snd p) es)))
               else (Some ErrOther, fs)))"

text \<open>\<^verbatim>\<open>os.WriteFile\<close> creates the file or replaces its contents.\<close>

definition WriteFile :: "'a fsys \<Rightarrow> path \<Rightarrow> 'a bytes \<Rightarrow> oserr option \<times> 'a fsys" where
  "WriteFile fs p b =
     (case fs (fst p) of
        NoDir c \<Rightarrow> (Some ErrNotExist, fs)
      | Locked \<Rightarrow> (Some ErrOther, fs)
      | Dir w es \<Rightarrow>
          (case map_of es (snd p) of
             Some SubDir \<Rightarrow> (Some ErrOther, fs)
           | Some NoPerm \<Rightarrow> (Some ErrOther, fs)
           | _ \<Rightarrow>
               if w then (None, fs(fst p := Dir w ((snd p, File b) # drop_entry (snd p) es)))
               else (Some ErrOther, fs)))"

definition MkdirAll :: "'a fsys \<Rightarrow> string \<Rightarrow> oserr option \<times> 'a fsys" where
  "MkdirAll fs d =
     (case fs d of
        NoDir c \<Rightarrow> if c then (None, fs(d := Dir True [])) else (Some ErrOther, fs)
      | Locked \<Rightarrow> (None, fs)
      | Dir w es \<Rightarrow> (None, fs))"


fun IsNotExist :: "oserr \<Rightarrow> bool" where
  "IsNotExist ErrNotExist = True"
| "IsNotExist ErrOther = False"


section \<open>Response cache\<close>

record CacheEntry =
  Data :: string
  CachedAt :: time
  ExpiresAt :: time

record Cache =
  directory :: string
  coursesTTL :: int
  courseworkTTL :: int


datatype cache_error =
    FailedToReadCache
  | FailedToParseCacheEntry
  | FailedToCreateCacheDirectory
  | FailedToMarshalData
  | FailedToWriteCache
  | FailedToDeleteCache
  | FailedToReadCacheDirectory



text \<open>\<^verbatim>\<open>strings.ReplaceAll\<close> for the one-character patterns \<^verbatim>\<open>getPath\<close> uses.\<close>

definition ReplaceAll :: "string \<Rightarrow> char \<Rightarrow> char \<Rightarrow> string" where
  "ReplaceAll s old new = map (\<lambda>c. if c = old then new else c) s"

definition getPath :: "Cache \<Rightarrow> string \<Rightarrow> path" where
  "getPath c key =
     (let safeKey = ReplaceAll key (CHR ''/'') (CHR ''_'');
          safeKey = ReplaceAll safeKey (CHR '':'') (CHR ''_'');
          safeKey = ReplaceAll safeKey (CHR '' '') (CHR ''_'')
      in (directory c, safeKey @ ''.json''))"

text \<open>
  \<^verbatim>\<open>Get\<close> returns \<^verbatim>\<open>(*CacheEntry, error)\<close>: \<open>Inl e\<close> is a non-nil error, \<open>Inr None\<close>
  is \<^verbatim>\<open>(nil, nil)\<close>, \<open>Inr (Some entry)\<close> is \<^verbatim>\<open>(&entry, nil)\<close>. The second component is
  the file system afterwards; the result of \<^verbatim>\<open>os.Remove\<close> is discarded, as in the source.
\<close>

definition Get :: "Cache \<Rightarrow> string \<Rightarrow> time \<Rightarrow> CacheEntry fsys
    \<Rightarrow> (cache_error + CacheEntry option) \<times> CacheEntry fsys" where
  "Get c key now fs =
     (let path = getPath c key in
      case ReadFile fs path of
        Inl err \<Rightarrow>
          if IsNotExist err then (Inr None, fs)
          else (Inl FailedToReadCache, fs)
      | Inr data \<Rightarrow>
          (case Unmarshal data of
             None \<Rightarrow> (Inl FailedToParseCacheEntry, fs)
           | Some entry \<Rightarrow>
               if ExpiresAt entry < now then (Inr None, snd (Remove fs path))
               else (Inr (Some entry), fs)))"


definition Delete :: "Cache \<Rightarrow> string \<Rightarrow> CacheEntry fsys \<Rightarrow> cache_error option \<times> CacheEntry fsys" where
  "Delete c key fs =
     (let path = getPath c key in
      case Remove fs path of
        (Some err, fs1) \<Rightarrow>
          if IsNotExist err then (None, fs1) else (Some FailedToDeleteCache, fs1)
      | (None, fs1) \<Rightarrow> (None, fs1))"




subsection \<open>Request fingerprints\<close>


text \<open>
  \<^verbatim>\<open>strings.Join(parts, sep)\<close>: the parts separated by \<open>sep\<close>, nothing before the
  first and nothing after the last.
\<close>

fun Join :: "string list \<Rightarrow> string \<Rightarrow> string" where
  "Join [] sep = []"
| "Join [p] sep = p"
| "Join (p # q # ps) sep = p @ sep @ Join (q # ps) sep"

text \<open>
  \<^verbatim>\<open>GenerateKey(endpoint, params)\<close> appends the endpoint, then one \<^verbatim>\<open>key=value\<close>
  part per entry that \<^verbatim>\<open>for key, value := range params\<close> yields, and joins the parts
  with \<^verbatim>\<open>&\<close>. A Go map has no order of its own: \<^verbatim>\<open>range\<close> yields every entry once,
  in an order the runtime picks anew for each loop. The model therefore takes the map as
  the sequence of entries in the order this one \<^verbatim>\<open>range\<close> yields them; a sequence
  \<open>xs\<close> with distinct keys is one iteration of the map \<open>map_of xs\<close>. The source does
  not sort the parts.
\<close>

definition GenerateKey :: "string \<Rightarrow> (string \<times> string) list \<Rightarrow> string" where
  "GenerateKey endpoint params =
     Join (endpoint # map (\<lambda>(key, val). key @ ''='' @ val) params) ''&''"


section \<open>OAuth token store\<close>

text \<open>
  \<^verbatim>\<open>oauth2.Token\<close>; \<open>Expiry = None\<close> is the zero \<^verbatim>\<open>time.Time\<close> (a token that never
  expires). \<^verbatim>\<open>Valid\<close> and \<^verbatim>\<open>expired\<close> are the library's: a token is valid when its
  access token is non-empty and it is not expired, and it is expired when its expiry,
  moved ten seconds earlier, is before the current time.
\<close>

record Token =
  AccessToken :: string
  TokenType :: string
  RefreshToken :: string
  Expiry :: "time option"

definition expiryDelta :: int where
  "expiryDelta = 10 * Second"

definition expired :: "Token \<Rightarrow> time \<Rightarrow> bool" where
  "expired t now = (case Expiry t of None \<Rightarrow> False | Some e \<Rightarrow> e - expiryDelta < now)"

definition Valid :: "Token \<Rightarrow> time \<Rightarrow> bool" where
  "Valid t now = (AccessToken t \<noteq> [] \<and> \<not> expired t now)"

datatype auth_error =
    NoStoredTokenFound
  | FailedToReadToken
  | FailedToParseToken
  | NoRefreshTokenAvailable
  | FailedToRefreshToken string
  | FailedToCreateTokenDirectory
  | FailedToWriteToken
  | FailedToDeleteToken

text \<open>
  \<^verbatim>\<open>oauth2.Config\<close>. \<open>Endpoint\<close> is the remote token endpoint as the program meets it:
  the outcome of a refresh grant for a given refresh token (an error message, or the
  token of the response).
\<close>

record oauth2_Config =
  ClientID :: string
  ClientSecret :: string
  RedirectURL :: string
  Scopes :: "string list"
  Endpoint :: "string \<Rightarrow> string + Token"

record Authenticator =
  config :: oauth2_Config
  configPath :: string
  tokenPath :: path

text \<open>
  \<^verbatim>\<open>a.config.TokenSource(ctx, token).Token()\<close>, the library's reusing token source: a
  valid token is returned as it is, without any request; otherwise the refresh token is
  sent to the token endpoint, and a response without a refresh token keeps the one sent.
\<close>

definition TokenSource_Token :: "oauth2_Config \<Rightarrow> Token \<Rightarrow> time \<Rightarrow> string + Token" where
  "TokenSource_Token conf token now =
     (if Valid token now then Inr token
      else if RefreshToken token = []
        then Inl ''oauth2: token expired and refresh token is not set''
      else
        (case Endpoint conf (RefreshToken token) of
           Inl err \<Rightarrow> Inl err
         | Inr tk \<Rightarrow>
             Inr (if RefreshToken tk = [] then tk\<lparr>RefreshToken := RefreshToken token\<rparr> else tk)))"

definition loadToken :: "Authenticator \<Rightarrow> Token fsys \<Rightarrow> auth_error + Token" where
  "loadToken a fs =
     (case ReadFile fs (tokenPath a) of
        Inl err \<Rightarrow>
          if IsNotExist err then Inl NoStoredTokenFound else Inl FailedToReadToken
      | Inr data \<Rightarrow>
          (case Unmarshal data of
             None \<Rightarrow> Inl FailedToParseToken
           | Some token \<Rightarrow> Inr token))"

text \<open>
  \<^verbatim>\<open>SaveToken\<close>: \<^verbatim>\<open>json.MarshalIndent\<close> of a token cannot fail, so that branch of the
  source has no counterpart.
\<close>

definition SaveToken :: "Authenticator \<Rightarrow> Token \<Rightarrow> Token fsys \<Rightarrow> auth_error option \<times> Token fsys" where
  "SaveToken a token fs =
     (let dir = fst (tokenPath a) in
      case MkdirAll fs dir of
        (Some err, fs1) \<Rightarrow> (Some FailedToCreateTokenDirectory, fs1)
      | (None, fs1) \<Rightarrow>
          (case WriteFile fs1 (tokenPath a) (Marshalled token) of
             (Some err, fs2) \<Rightarrow> (Some FailedToWriteToken, fs2)
           | (None, fs2) \<Rightarrow> (None, fs2)))"

definition DeleteToken :: "Authenticator \<Rightarrow> Token fsys \<Rightarrow> auth_error option \<times> Token fsys" where
  "DeleteToken a fs =
     (case Remove fs (tokenPath a) of
        (Some err, fs1) \<Rightarrow>
          if IsNotExist err then (None, fs1) else (Some FailedToDeleteToken, fs1)
      | (None, fs1) \<Rightarrow> (None, fs1))"

definition IsAuthenticated :: "Authenticator \<Rightarrow> time \<Rightarrow> Token fsys \<Rightarrow> bool" where
  "IsAuthenticated a now fs =
     (case loadToken a fs of
        Inl err \<Rightarrow> False
      | Inr token \<Rightarrow> Valid token now \<or> RefreshToken token \<noteq> [])"

text \<open>
  The method \<^verbatim>\<open>(a *Authenticator) RefreshToken(ctx)\<close>; the name \<open>RefreshToken\<close> is the
  token's field.
\<close>

definition Authenticator_RefreshToken :: "Authenticator \<Rightarrow> time \<Rightarrow> Token fsys
    \<Rightarrow> (auth_error + Token) \<times> Token fsys" where
  "Authenticator_RefreshToken a now fs =
     (case loadToken a fs of
        Inl err \<Rightarrow> (Inl err, fs)
      | Inr token \<Rightarrow>
          if RefreshToken token = [] then (Inl NoRefreshTokenAvailable, fs)
          else
            (case TokenSource_Token (config a) token now of
               Inl err \<Rightarrow> (Inl (FailedToRefreshToken err), fs)
             | Inr newToken \<Rightarrow>
                 (case SaveToken a newToken fs of
                    (Some err, fs1) \<Rightarrow> (Inl err, fs1)
                  | (None, fs1) \<Rightarrow> (Inr newToken, fs1))))"

section \<open>API client\<close>

subsection \<open>Errors, contexts and the network\<close>

text \<open>
  The error types of package \<^verbatim>\<open>errors\<close> of the repository (\<^verbatim>\<open>ErrorType\<close>, in the
  order of its \<^verbatim>\<open>iota\<close> constants).
\<close>

datatype ErrorType =
    ErrAuth | ErrAuthExpired | ErrAuthRevoked | ErrAuthOffline
  | ErrAPI | ErrAPIRateLimit | ErrAPINotFound | ErrAPIForbidden | ErrAPIServerError
  | ErrAPINetwork
  | ErrCache | ErrCacheRead | ErrCacheWrite | ErrCacheExpired
  | ErrValidation | ErrInvalidInput
  | ErrSystem | ErrIO | ErrConfig

text \<open>
  A Go \<^verbatim>\<open>error\<close> value as package \<^verbatim>\<open>api\<close> and its callers meet it: an error a remote
  call returned, known by its message; the two errors of a context;
  \<^verbatim>\<open>fmt.Errorf(prefix + "%w", err)\<close>, which wraps \<open>err\<close> and whose message is the prefix
  followed by the message of \<open>err\<close>; and the typed \<^verbatim>\<open>*errors.Error\<close> of the
  repository, with its fields \<^verbatim>\<open>Type\<close>, \<^verbatim>\<open>Message\<close>, \<^verbatim>\<open>Original\<close> (\<open>None\<close> is
  \<^verbatim>\<open>nil\<close>), \<^verbatim>\<open>UserSuggestion\<close> and \<^verbatim>\<open>Recoverable\<close>.
\<close>

datatype api_error =
    APIError string
  | Canceled
  | DeadlineExceeded
  | Wrapf string api_error
  | TypedError ErrorType string "api_error option" string bool

fun Error :: "api_error \<Rightarrow> string" where
  "Error (APIError msg) = msg"
| "Error Canceled = ''context canceled''"
| "Error DeadlineExceeded = ''context deadline exceeded''"
| "Error (Wrapf p err) = p @ Error err"
| "Error (TypedError t msg None sug rec) = msg"
| "Error (TypedError t msg (Some orig) sug rec) = msg @ '': '' @ Error orig"


text \<open>\<^verbatim>\<open>strings.Contains(s, substr)\<close>.\<close>

fun Contains :: "string \<Rightarrow> string \<Rightarrow> bool" where
  "Contains [] substr = (substr = [])"
| "Contains (c # s) substr = (prefix substr (c # s) \<or> Contains s substr)"

text \<open>The argument is a Go \<^verbatim>\<open>error\<close> value: \<open>None\<close> is \<^verbatim>\<open>nil\<close>.\<close>

fun isRateLimitError :: "api_error option \<Rightarrow> bool" where
  "isRateLimitError None = False"
| "isRateLimitError (Some err) =
     (let errStr = Error err in Contains errStr ''429'' \<or> Contains errStr ''rate limit'')"

fun isAPIError :: "api_error option \<Rightarrow> bool" where
  "isAPIError None = False"
| "isAPIError (Some err) =
     (let errStr = Error err
      in Contains errStr ''403'' \<or> Contains errStr ''404'' \<or> Contains errStr ''401'')"

text \<open>
  A \<^verbatim>\<open>context.Context\<close>: never done, cancelled at an instant, or with a deadline.
  \<^verbatim>\<open>ctx.Done()\<close> is closed from that instant on; \<^verbatim>\<open>ctx.Err()\<close> then says why.
\<close>

datatype Context = Background | WithCancel time | WithDeadline time

fun Done :: "Context \<Rightarrow> time \<Rightarrow> bool" where
  "Done Background now = False"
| "Done (WithCancel t) now = (t \<le> now)"
| "Done (WithDeadline t) now = (t \<le> now)"

fun Err :: "Context \<Rightarrow> api_error" where
  "Err Background = Canceled"
| "Err (WithCancel t) = Canceled"
| "Err (WithDeadline t) = DeadlineExceeded"

text \<open>
  What the client does to the world outside: the clock, the requests it has sent to the
  remote service so far, and the sleeps it has taken. A request is instantaneous; only
  \<^verbatim>\<open>time.Sleep\<close> moves the clock.
\<close>

datatype request = CoursesList "string option" | CoursesGet string

record net =
  clock :: time
  requests :: "request list"
  sleeps :: "int list"

definition Sleep :: "int \<Rightarrow> net \<Rightarrow> net" where
  "Sleep d w = w\<lparr>clock := clock w + (if 0 < d then d else 0), sleeps := sleeps w @ [d]\<rparr>"

subsection \<open>Remote schema and domain records\<close>

record classroom_Course =
  Id :: string
  cName :: string
  cSection :: string
  DescriptionHeading :: string
  cRoom :: string
  OwnerId :: string
  cEnrollmentCode :: string
  cCourseState :: string
  CreationTime :: string
  cUpdateTime :: string

record Course =
  ID :: string
  Name :: string
  Section :: string
  Description :: string
  Room :: string
  OwnerID :: string
  EnrollmentCode :: string
  CourseState :: string
  TimeCreated :: string
  UpdateTime :: string

record classroom_ListCoursesResponse =
  Courses :: "classroom_Course list"
  NextPageToken :: string

definition convertCourse :: "classroom_Course \<Rightarrow> Course" where
  "convertCourse c =
     \<lparr>ID = Id c,
      Name = cName c,
      Section = cSection c,
      Description = DescriptionHeading c,
      Room = cRoom c,
      OwnerID = OwnerId c,
      EnrollmentCode = cEnrollmentCode c,
      CourseState = cCourseState c,
      TimeCreated = CreationTime c,
      UpdateTime = cUpdateTime c\<rparr>"

subsection \<open>The client\<close>

text \<open>
  \<^verbatim>\<open>classroom.Service\<close>, as the remote answers through it: the answer to a request may
  depend on how many requests the remote has received before and on the request's
  parameter (the page token, if the request carries one; the course id).
\<close>

record Service =
  Courses_List :: "nat \<Rightarrow> string option \<Rightarrow> api_error + classroom_ListCoursesResponse"
  Courses_Get :: "nat \<Rightarrow> string \<Rightarrow> api_error + classroom_Course"

type_synonym TokenSource = "time \<Rightarrow> string + Token"

datatype http_Client = OAuth2Client TokenSource

record Client =
  service :: Service
  httpClient :: http_Client

record Configuration =
  RateLimitBackoff :: int
  MaxRetries :: int

definition DefaultConfiguration :: Configuration where
  "DefaultConfiguration = \<lparr>RateLimitBackoff = 1 * Second, MaxRetries = 3\<rparr>"

text \<open>
  \<^verbatim>\<open>NewClient(ctx, ts, cfg)\<close>; \<open>newService\<close> is the outcome of \<^verbatim>\<open>classroom.NewService\<close>,
  and \<open>cfg = None\<close> is a nil configuration. The configuration is defaulted and then
  not used: the client the source builds has the two fields \<open>service\<close> and
  \<open>httpClient\<close> only.
\<close>

definition NewClient :: "string + Service \<Rightarrow> TokenSource \<Rightarrow> Configuration option
    \<Rightarrow> api_error + Client" where
  "NewClient newService ts cfg =
     (let cfg = (case cfg of None \<Rightarrow> DefaultConfiguration | Some c \<Rightarrow> c);
          httpClient = OAuth2Client ts
      in case newService of
           Inl err \<Rightarrow> Inl (Wrapf ''failed to create classroom service: '' (APIError err))
         | Inr svc \<Rightarrow> Inr \<lparr>service = svc, httpClient = httpClient\<rparr>)"

text \<open>\<^verbatim>\<open>req.Do()\<close> for the two kinds of request: the request is logged and answered.\<close>

definition CoursesListCall_Do :: "Client \<Rightarrow> string option \<Rightarrow> net
    \<Rightarrow> (api_error + classroom_ListCoursesResponse) \<times> net" where
  "CoursesListCall_Do c pageToken w =
     (Courses_List (service c) (length (requests w)) pageToken,
      w\<lparr>requests := requests w @ [CoursesList pageToken]\<rparr>)"


text \<open>
  The loop of \<^verbatim>\<open>executeWithRetry\<close>, with its variables \<open>attempt\<close>, \<open>backoff\<close> and
  \<open>lastErr\<close> (\<open>None\<close> is \<^verbatim>\<open>nil\<close>); \<open>fn\<close> is the closure, which acts on the world.
  The bound 3 and the first backoff of one second are the source's literals.
\<close>

function executeWithRetry_loop :: "Context \<Rightarrow> (net \<Rightarrow> (api_error + 'a) \<times> net) \<Rightarrow> nat \<Rightarrow> int
    \<Rightarrow> api_error option \<Rightarrow> net \<Rightarrow> (api_error + 'a) \<times> net" where
  "executeWithRetry_loop ctx fn attempt backoff lastErr w =
     (if attempt < 3 then
        (if Done ctx (clock w) then (Inl (Err ctx), w)
         else
           (case fn w of
              (Inr resp, w1) \<Rightarrow> (Inr resp, w1)
            | (Inl err, w1) \<Rightarrow>
                if isRateLimitError (Some err) then
                  executeWithRetry_loop ctx fn (attempt + 1) (backoff * 2) (Some err)
                    (Sleep backoff w1)
                else if isAPIError (Some err) then (Inl err, w1)
                else executeWithRetry_loop ctx fn (attempt + 1) backoff (Some err) w1))
      else
        (case lastErr of
           None \<Rightarrow> (Inl (APIError ''after 3 attempts: %!w(<nil>)''), w)
         | Some err \<Rightarrow> (Inl (Wrapf ''after 3 attempts: '' err), w)))"
  by pat_completeness auto
termination
  by (relation "measure (\<lambda>(ctx, fn, attempt, backoff, lastErr, w). 3 - attempt)") auto

declare executeWithRetry_loop.simps [simp del]

definition executeWithRetry :: "Client \<Rightarrow> Context \<Rightarrow> (net \<Rightarrow> (api_error + 'a) \<times> net) \<Rightarrow> net
    \<Rightarrow> (api_error + 'a) \<times> net" where
  "executeWithRetry c ctx fn w = executeWithRetry_loop ctx fn 0 Second None w"

text \<open>
  The pagination loop of \<^verbatim>\<open>ListCourses\<close>. The source's \<^verbatim>\<open>for { ... }\<close> ends only when
  a page comes without a continuation token (or a page request fails), so the model
  counts iterations against a bound: \<open>None\<close> says that the bound was reached before
  the loop ended.
\<close>

fun ListCourses_loop :: "nat \<Rightarrow> Client \<Rightarrow> Context \<Rightarrow> Course list \<Rightarrow> string \<Rightarrow> net
    \<Rightarrow> ((api_error + Course list) \<times> net) option" where
  "ListCourses_loop 0 c ctx courses pageToken w = None"
| "ListCourses_loop (Suc n) c ctx courses pageToken w =
     (let req = (if pageToken \<noteq> [] then Some pageToken else None) in
      case executeWithRetry c ctx (CoursesListCall_Do c req) w of
        (Inl err, w1) \<Rightarrow> Some (Inl (Wrapf ''failed to list courses: '' err), w1)
      | (Inr resp, w1) \<Rightarrow>
          (let courses = courses @ map convertCourse (Courses resp);
               pageToken = NextPageToken resp
           in if pageToken = [] then Some (Inr courses, w1)
              else ListCourses_loop n c ctx courses pageToken w1))"

definition ListCourses :: "nat \<Rightarrow> Client \<Rightarrow> Context \<Rightarrow> net
    \<Rightarrow> ((api_error + Course list) \<times> net) option" where
  "ListCourses n c ctx w = ListCourses_loop n c ctx [] [] w"


text \<open>
  The remote serves the pages \<open>ps\<close> from its \<open>k\<close>-th request on: the request
  carrying the token \<open>tok\<close> (none, when \<open>tok\<close> is empty) is answered with the first
  page, the request carrying that page's continuation token with the second, and so
  on; every page but the last has a continuation token, and the last has none.
\<close>

fun serves :: "Service \<Rightarrow> nat \<Rightarrow> string \<Rightarrow> classroom_ListCoursesResponse list \<Rightarrow> bool" where
  "serves svc k tok [] = True"
| "serves svc k tok (p # ps) =
     (Courses_List svc k (if tok \<noteq> [] then Some tok else None) = Inr p
      \<and> (if ps = [] then NextPageToken p = []
         else NextPageToken p \<noteq> [] \<and> serves svc (Suc k) (NextPageToken p) ps))"

section \<open>Remote services and records of the examples\<close>

text \<open>
  A remote that answers every request with the same error, a remote that answers its
  \<open>n\<close>-th request with the \<open>n\<close>-th error of a list (and with the last one from then
  on), a remote that answers its \<open>n\<close>-th request with the \<open>n\<close>-th page of a list, a
  token source, and a course of the remote schema with a given id.
\<close>

definition remote_always :: "api_error \<Rightarrow> Service" where
  "remote_always err = \<lparr>Courses_List = (\<lambda>n tok. Inl err), Courses_Get = (\<lambda>n cid. Inl err)\<rparr>"


definition no_token :: TokenSource where
  "no_token = (\<lambda>now. Inl ''no token'')"

definition remote_pages :: "classroom_ListCoursesResponse list \<Rightarrow> Service" where
  "remote_pages pages =
     \<lparr>Courses_List = (\<lambda>n tok. if n < length pages then Inr (pages ! n)
                               else Inl (APIError ''googleapi: Error 400: invalid page token'')),
      Courses_Get = (\<lambda>n cid. Inl (APIError ''googleapi: Error 404: Requested entity was not found., notFound''))\<rparr>"

definition course_with_id :: "string \<Rightarrow> classroom_Course" where
  "course_with_id i =
     \<lparr>Id = i, cName = ''Course '' @ i, cSection = [], DescriptionHeading = [], cRoom = [],
      OwnerId = [], cEnrollmentCode = [], cCourseState = ''ACTIVE'', CreationTime = [],
      cUpdateTime = []\<rparr>"

section \<open>Theorems\<close>

subsection \<open>Response cache\<close>



lemma drop_entry_idem: "drop_entry n (drop_entry n es) = drop_entry n es"
  by (simp add: drop_entry_def)











text \<open>
  C10. \<open>Get\<close> reports a miss as \<^verbatim>\<open>(nil, nil)\<close>, that is \<open>Inr None\<close>, both when no
  file exists for the key and when the stored entry has expired (the clock is past its
  expiry); it returns an error exactly when the file cannot be read for a reason other
  than non-existence (\<open>FailedToReadCache\<close>) or its contents do not parse
  (\<open>FailedToParseCacheEntry\<close>).
\<close>

theorem Get_miss_is_nil_nil:
  "(ReadFile fs (getPath c key) = Inl ErrNotExist \<longrightarrow> Get c key now fs = (Inr None, fs))
 \<and> (ReadFile fs (getPath c key) = Inr (Marshalled entry) \<and> ExpiresAt entry < now
       \<longrightarrow> fst (Get c key now fs) = Inr None)
 \<and> (ReadFile fs (getPath c key) = Inl ErrOther
       \<longrightarrow> Get c key now fs = (Inl FailedToReadCache, fs))
 \<and> (ReadFile fs (getPath c key) = Inr (Junk n)
       \<longrightarrow> Get c key now fs = (Inl FailedToParseCacheEntry, fs))
 \<and> ((\<exists>e. fst (Get c key now fs) = Inl e)
       \<longleftrightarrow> (ReadFile fs (getPath c key) = Inl ErrOther
            \<or> (\<exists>m. ReadFile fs (getPath c key) = Inr (Junk m))))"
proof -
  show ?thesis
  proof (cases "ReadFile fs (getPath c key)")
    case (Inl e)
    then show ?thesis by (cases e) (simp_all add: Get_def Let_def)
  next
    case (Inr b)
    then show ?thesis by (cases b) (simp_all add: Get_def Let_def)
  qed
qed

text \<open>The four cases of C10 on a cache directory holding at most one file.\<close>

theorem Get_miss_is_nil_nil_witness:
  "Get \<lparr>directory = ''/cache'', coursesTTL = 300 * Second, courseworkTTL = 3600 * Second\<rparr>
     ''courses'' 5000 (\<lambda>d. Dir True []) = (Inr None, (\<lambda>d. Dir True []))
 \<and> fst (Get \<lparr>directory = ''/cache'', coursesTTL = 300 * Second, courseworkTTL = 3600 * Second\<rparr>
     ''courses'' 5000
     (\<lambda>d. Dir True [(''courses.json'',
         File (Marshalled \<lparr>Data = ''[]'', CachedAt = 1000, ExpiresAt = 4000\<rparr>))])) = Inr None
 \<and> fst (Get \<lparr>directory = ''/cache'', coursesTTL = 300 * Second, courseworkTTL = 3600 * Second\<rparr>
     ''courses'' 5000 (\<lambda>d. Dir True [(''courses.json'', NoPerm)])) = Inl FailedToReadCache
 \<and> fst (Get \<lparr>directory = ''/cache'', coursesTTL = 300 * Second, courseworkTTL = 3600 * Second\<rparr>
     ''courses'' 5000 (\<lambda>d. Dir True [(''courses.json'', File (Junk 7))]))
     = Inl FailedToParseCacheEntry"
proof -
  let ?c = "\<lparr>directory = ''/cache'', coursesTTL = 300 * Second, courseworkTTL = 3600 * Second\<rparr>"
  let ?e = "\<lparr>Data = ''[]'', CachedAt = 1000, ExpiresAt = 4000\<rparr>"
  have p: "getPath ?c ''courses'' = (''/cache'', ''courses.json'')"
    by (simp add: getPath_def ReplaceAll_def Let_def)
  have r1: "ReadFile (\<lambda>d. Dir True []) (getPath ?c ''courses'') = Inl ErrNotExist"
    by (simp add: p ReadFile_def)
  have r2: "ReadFile (\<lambda>d. Dir True [(''courses.json'', File (Marshalled ?e))])
              (getPath ?c ''courses'') = Inr (Marshalled ?e) \<and> ExpiresAt ?e < 5000"
    by (simp add: p ReadFile_def)
  have r3: "ReadFile (\<lambda>d. Dir True [(''courses.json'', NoPerm)]) (getPath ?c ''courses'')
              = Inl ErrOther"
    by (simp add: p ReadFile_def)
  have r4: "ReadFile (\<lambda>d. Dir True [(''courses.json'', File (Junk 7))]) (getPath ?c ''courses'')
              = Inr (Junk 7)"
    by (simp add: p ReadFile_def)
  have a: "Get ?c ''courses'' 5000 (\<lambda>d. Dir True []) = (Inr None, (\<lambda>d. Dir True []))"
    using r1 Get_miss_is_nil_nil [where fs = "\<lambda>d. Dir True []"
       and c = ?c and key = "''courses''" and entry = ?e and now = 5000 and n = 7]
    by blast
  have b: "fst (Get ?c ''courses'' 5000
             (\<lambda>d. Dir True [(''courses.json'', File (Marshalled ?e))])) = Inr None"
    using r2 Get_miss_is_nil_nil
       [where fs = "\<lambda>d. Dir True [(''courses.json'', File (Marshalled ?e))]"
       and c = ?c and key = "''courses''" and entry = ?e and now = 5000 and n = 7]
    by blast
  have c: "Get ?c ''courses'' 5000 (\<lambda>d. Dir True [(''courses.json'', NoPerm)])
             = (Inl FailedToReadCache, (\<lambda>d. Dir True [(''courses.json'', NoPerm)]))"
    using r3 Get_miss_is_nil_nil [where fs = "\<lambda>d. Dir True [(''courses.json'', NoPerm)]"
       and c = ?c and key = "''courses''" and entry = ?e and now = 5000 and n = 7]
    by blast
  have d: "Get ?c ''courses'' 5000 (\<lambda>d. Dir True [(''courses.json'', File (Junk 7))])
             = (Inl FailedToParseCacheEntry, (\<lambda>d. Dir True [(''courses.json'', File (Junk 7))]))"
    using r4 Get_miss_is_nil_nil
       [where fs = "\<lambda>d. Dir True [(''courses.json'', File (Junk 7))]"
       and c = ?c and key = "''courses''" and entry = ?e and now = 5000 and n = 7]
    by blast
  show ?thesis
    unfolding a b c d by simp
qed


subsection \<open>Token store\<close>


text \<open>
  C9. \<open>IsAuthenticated\<close> is true exactly when a stored token loads and that token is
  valid at the current time or carries a non-empty refresh token. In particular it is
  false when no token file exists, and false when the stored token is expired and its
  refresh token is empty.
\<close>

theorem IsAuthenticated_iff:
  "(IsAuthenticated a now fs
      \<longleftrightarrow> (\<exists>token. loadToken a fs = Inr token
             \<and> (Valid token now \<or> RefreshToken token \<noteq> [])))
 \<and> (ReadFile fs (tokenPath a) = Inl ErrNotExist \<longrightarrow> \<not> IsAuthenticated a now fs)
 \<and> (loadToken a fs = Inr token \<and> expired token now \<and> RefreshToken token = []
       \<longrightarrow> \<not> IsAuthenticated a now fs)"
  by (auto simp: IsAuthenticated_def loadToken_def Valid_def split: sum.splits)

text \<open>
  C9 on three token stores: an expired token with a refresh token, no token file, and an
  expired token without a refresh token.
\<close>

theorem IsAuthenticated_iff_witness:
  "IsAuthenticated
     \<lparr>config = \<lparr>ClientID = ''id'', ClientSecret = ''secret'',
                 RedirectURL = ''http://localhost:8080/callback'', Scopes = [],
                 Endpoint = (\<lambda>r. Inl ''invalid_grant'')\<rparr>,
      configPath = ''config.json'',
      tokenPath = (''/home/u/.config/google-classroom'', ''tokens.json'')\<rparr>
     (5000 * Second)
     (\<lambda>d. Dir True [(''tokens.json'', File (Marshalled
        \<lparr>AccessToken = ''old'', TokenType = ''Bearer'', RefreshToken = ''r1'',
         Expiry = Some (1000 * Second)\<rparr>))])
 \<and> \<not> IsAuthenticated
     \<lparr>config = \<lparr>ClientID = ''id'', ClientSecret = ''secret'',
                 RedirectURL = ''http://localhost:8080/callback'', Scopes = [],
                 Endpoint = (\<lambda>r. Inl ''invalid_grant'')\<rparr>,
      configPath = ''config.json'',
      tokenPath = (''/home/u/.config/google-classroom'', ''tokens.json'')\<rparr>
     (5000 * Second)
     (\<lambda>d. Dir True [])
 \<and> \<not> IsAuthenticated
     \<lparr>config = \<lparr>ClientID = ''id'', ClientSecret = ''secret'',
                 RedirectURL = ''http://localhost:8080/callback'', Scopes = [],
                 Endpoint = (\<lambda>r. Inl ''invalid_grant'')\<rparr>,
      configPath = ''config.json'',
      tokenPath = (''/home/u/.config/google-classroom'', ''tokens.json'')\<rparr>
     (5000 * Second)
     (\<lambda>d. Dir True [(''tokens.json'', File (Marshalled
        \<lparr>AccessToken = ''old'', TokenType = ''Bearer'', RefreshToken = [],
         Expiry = Some (1000 * Second)\<rparr>))])"
proof -
  let ?a = "\<lparr>config = \<lparr>ClientID = ''id'', ClientSecret = ''secret'',
                 RedirectURL = ''http://localhost:8080/callback'', Scopes = [],
                 Endpoint = (\<lambda>r. Inl ''invalid_grant'')\<rparr>,
      configPath = ''config.json'',
      tokenPath = (''/home/u/.config/google-classroom'', ''tokens.json'')\<rparr>"
  let ?t1 = "\<lparr>AccessToken = ''old'', TokenType = ''Bearer'', RefreshToken = ''r1'',
         Expiry = Some (1000 * Second)\<rparr>"
  let ?t2 = "\<lparr>AccessToken = ''old'', TokenType = ''Bearer'', RefreshToken = [],
         Expiry = Some (1000 * Second)\<rparr>"
  let ?fs1 = "\<lambda>d::string. Dir True [(''tokens.json'', File (Marshalled ?t1))]"
  let ?fs0 = "\<lambda>d::string. (Dir True [] :: Token fsdir)"
  let ?fs2 = "\<lambda>d::string. Dir True [(''tokens.json'', File (Marshalled ?t2))]"
  have l1: "loadToken ?a ?fs1 = Inr ?t1 \<and> (Valid ?t1 (5000 * Second) \<or> RefreshToken ?t1 \<noteq> [])"
    by (simp add: loadToken_def ReadFile_def)
  have l0: "ReadFile ?fs0 (tokenPath ?a) = Inl ErrNotExist"
    by (simp add: ReadFile_def)
  have l2: "loadToken ?a ?fs2 = Inr ?t2 \<and> expired ?t2 (5000 * Second) \<and> RefreshToken ?t2 = []"
    by (simp add: loadToken_def ReadFile_def expired_def expiryDelta_def Second_def)
  have a: "IsAuthenticated ?a (5000 * Second) ?fs1"
    using l1 IsAuthenticated_iff [where a = ?a and now = "5000 * Second" and fs = ?fs1 and token = ?t1]
    by blast
  have b: "\<not> IsAuthenticated ?a (5000 * Second) ?fs0"
    using l0 IsAuthenticated_iff [where a = ?a and now = "5000 * Second" and fs = ?fs0 and token = ?t1]
    by blast
  have c: "\<not> IsAuthenticated ?a (5000 * Second) ?fs2"
    using l2 IsAuthenticated_iff [where a = ?a and now = "5000 * Second" and fs = ?fs2 and token = ?t2]
    by blast
  from a b c show ?thesis by blast
qed

text \<open>
  C7. The claim: a failed refresh invalidates the stored credential. In the source the
  failure branch of \<^verbatim>\<open>RefreshToken\<close> only returns the error: with a stored token that
  expired long ago and a token endpoint that rejects its refresh token, the token file
  is left exactly as it was, a later \<open>loadToken\<close> hands out the same token, and
  \<open>IsAuthenticated\<close> still answers true.
\<close>

theorem RefreshToken_failure_keeps_token:
  "Authenticator_RefreshToken
     \<lparr>config = \<lparr>ClientID = ''id'', ClientSecret = ''secret'',
                 RedirectURL = ''http://localhost:8080/callback'', Scopes = [],
                 Endpoint = (\<lambda>r. Inl ''invalid_grant'')\<rparr>,
      configPath = ''config.json'',
      tokenPath = (''/home/u/.config/google-classroom'', ''tokens.json'')\<rparr>
     (5000 * Second)
     (\<lambda>d. Dir True [(''tokens.json'', File (Marshalled
        \<lparr>AccessToken = ''old'', TokenType = ''Bearer'', RefreshToken = ''revoked'',
         Expiry = Some (1000 * Second)\<rparr>))])
   = (Inl (FailedToRefreshToken ''invalid_grant''),
      (\<lambda>d. Dir True [(''tokens.json'', File (Marshalled
        \<lparr>AccessToken = ''old'', TokenType = ''Bearer'', RefreshToken = ''revoked'',
         Expiry = Some (1000 * Second)\<rparr>))]))
 \<and> loadToken
     \<lparr>config = \<lparr>ClientID = ''id'', ClientSecret = ''secret'',
                 RedirectURL = ''http://localhost:8080/callback'', Scopes = [],
                 Endpoint = (\<lambda>r. Inl ''invalid_grant'')\<rparr>,
      configPath = ''config.json'',
      tokenPath = (''/home/u/.config/google-classroom'', ''tokens.json'')\<rparr>
     (\<lambda>d. Dir True [(''tokens.json'', File (Marshalled
        \<lparr>AccessToken = ''old'', TokenType = ''Bearer'', RefreshToken = ''revoked'',
         Expiry = Some (1000 * Second)\<rparr>))])
   = Inr \<lparr>AccessToken = ''old'', TokenType = ''Bearer'', RefreshToken = ''revoked'',
         Expiry = Some (1000 * Second)\<rparr>
 \<and> IsAuthenticated
     \<lparr>config = \<lparr>ClientID = ''id'', ClientSecret = ''secret'',
                 RedirectURL = ''http://localhost:8080/callback'', Scopes = [],
                 Endpoint = (\<lambda>r. Inl ''invalid_grant'')\<rparr>,
      configPath = ''config.json'',
      tokenPath = (''/home/u/.config/google-classroom'', ''tokens.json'')\<rparr>
     (5000 * Second)
     (\<lambda>d. Dir True [(''tokens.json'', File (Marshalled
        \<lparr>AccessToken = ''old'', TokenType = ''Bearer'', RefreshToken = ''revoked'',
         Expiry = Some (1000 * Second)\<rparr>))])"
  by (simp add: Authenticator_RefreshToken_def loadToken_def IsAuthenticated_def ReadFile_def
        TokenSource_Token_def Valid_def expired_def expiryDelta_def Second_def)

subsection \<open>API client\<close>


lemma executeWithRetry_success:
  assumes "\<not> Done ctx (clock w)" and "fn w = (Inr resp, w1)"
  shows "executeWithRetry c ctx fn w = (Inr resp, w1)"
  using assms
  by (simp add: executeWithRetry_def executeWithRetry_loop.simps [of ctx fn 0])






lemma ListCourses_loop_pages:
  assumes "serves (service c) (length (requests w)) tok ps"
    and "ps \<noteq> []"
    and "\<not> Done ctx (clock w)"
    and "length ps \<le> n"
  shows "ListCourses_loop n c ctx acc tok w =
           Some (Inr (acc @ concat (map (\<lambda>p. map convertCourse (Courses p)) ps)),
                 w\<lparr>requests := requests w
                      @ map CoursesList ((if tok \<noteq> [] then Some tok else None)
                                         # map (\<lambda>p. Some (NextPageToken p)) (butlast ps))\<rparr>)"
  using assms
proof (induction ps arbitrary: n acc tok w)
  case Nil
  then show ?case by simp
next
  case (Cons p ps)
  from Cons.prems(4) obtain m where n: "n = Suc m" and m: "length ps \<le> m"
    by (cases n) auto
  let ?req = "if tok \<noteq> [] then Some tok else None"
  let ?w1 = "w\<lparr>requests := requests w @ [CoursesList ?req]\<rparr>"
  have ans: "Courses_List (service c) (length (requests w)) ?req = Inr p"
    using Cons.prems(1) by simp
  have do: "CoursesListCall_Do c ?req w = (Inr p, ?w1)"
    by (simp add: CoursesListCall_Do_def ans)
  have ex: "executeWithRetry c ctx (CoursesListCall_Do c ?req) w = (Inr p, ?w1)"
    by (rule executeWithRetry_success [where fn = "CoursesListCall_Do c ?req", OF Cons.prems(3) do])
  show ?case
  proof (cases "ps = []")
    case True
    then have "NextPageToken p = []" using Cons.prems(1) by simp
    then show ?thesis using True by (simp add: n ex Let_def)
  next
    case False
    then have tok: "NextPageToken p \<noteq> []"
      and rest: "serves (service c) (length (requests ?w1)) (NextPageToken p) ps"
      using Cons.prems(1) by simp_all
    have nd: "\<not> Done ctx (clock ?w1)" using Cons.prems(3) by simp
    have ih: "ListCourses_loop m c ctx (acc @ map convertCourse (Courses p)) (NextPageToken p) ?w1 =
           Some (Inr ((acc @ map convertCourse (Courses p))
                        @ concat (map (\<lambda>p. map convertCourse (Courses p)) ps)),
                 ?w1\<lparr>requests := requests ?w1
                      @ map CoursesList ((if NextPageToken p \<noteq> [] then Some (NextPageToken p) else None)
                                         # map (\<lambda>p. Some (NextPageToken p)) (butlast ps))\<rparr>)"
      using Cons.IH [OF rest False nd m] .
    show ?thesis
      using False tok by (simp add: n ex Let_def ih)
  qed
qed

text \<open>
  C8. Let the remote serve the pages \<open>pages\<close> to a \<open>ListCourses\<close> call: the first
  request, without a page token, is answered with the first page, the request carrying
  a page's continuation token with the next page, and exactly the last page has no
  continuation token. Then the pagination loop ends after as many requests as there are
  pages (any iteration bound of at least that many is enough), the requests sent are the
  one without a token followed by one per continuation token, in order, and the result
  is the converted records of all pages concatenated in page order.
\<close>

theorem ListCourses_assembles_pages:
  assumes "serves (service c) (length (requests w)) [] pages"
    and "pages \<noteq> []"
    and "\<not> Done ctx (clock w)"
    and "length pages \<le> n"
  shows "ListCourses n c ctx w =
           Some (Inr (concat (map (\<lambda>p. map convertCourse (Courses p)) pages)),
                 w\<lparr>requests := requests w
                      @ map CoursesList (None # map (\<lambda>p. Some (NextPageToken p)) (butlast pages))\<rparr>)"
  using ListCourses_loop_pages [OF assms, of "[]"] by (simp add: ListCourses_def)


text \<open>C8 on three pages of sizes 2, 2 and 1: one collection of five records.\<close>

theorem ListCourses_assembles_pages_witness:
  "ListCourses 3
     \<lparr>service = remote_pages
        [\<lparr>Courses = [course_with_id ''1'', course_with_id ''2''], NextPageToken = ''t1''\<rparr>,
         \<lparr>Courses = [course_with_id ''3'', course_with_id ''4''], NextPageToken = ''t2''\<rparr>,
         \<lparr>Courses = [course_with_id ''5''], NextPageToken = []\<rparr>],
      httpClient = OAuth2Client no_token\<rparr>
     Background \<lparr>clock = 0, requests = [], sleeps = []\<rparr>
   = Some (Inr (map (\<lambda>i. convertCourse (course_with_id i)) [''1'', ''2'', ''3'', ''4'', ''5'']),
           \<lparr>clock = 0,
            requests = [CoursesList None, CoursesList (Some ''t1''), CoursesList (Some ''t2'')],
            sleeps = []\<rparr>)"
proof -
  let ?pages = "[\<lparr>Courses = [course_with_id ''1'', course_with_id ''2''], NextPageToken = ''t1''\<rparr>,
         \<lparr>Courses = [course_with_id ''3'', course_with_id ''4''], NextPageToken = ''t2''\<rparr>,
         \<lparr>Courses = [course_with_id ''5''], NextPageToken = []\<rparr>]"
  let ?c = "\<lparr>service = remote_pages ?pages, httpClient = OAuth2Client no_token\<rparr>"
  let ?w = "\<lparr>clock = 0, requests = [], sleeps = []\<rparr>"
  have h1: "serves (service ?c) (length (requests ?w)) [] ?pages"
    by (simp add: remote_pages_def)
  have h2: "?pages \<noteq> []" by simp
  have h3: "\<not> Done Background (clock ?w)" by simp
  have h4: "length ?pages \<le> 3" by simp
  from ListCourses_assembles_pages [OF h1 h2 h3 h4] show ?thesis by simp
qed



text \<open>
  C2. The claim: with \<open>MaxRetries = n\<close> the client makes exactly \<open>n\<close> attempts, with
  backoff starting at the configured \<open>RateLimitBackoff\<close>. In the source no value of
  the configuration reaches the retry loop. Whatever configuration \<open>cfg\<close> the client
  is created with (for instance \<open>MaxRetries = 5\<close> and a backoff of two seconds),
  against a remote that always answers 429 it sends three requests, sleeps one, two and
  four seconds (also after the last attempt), and returns "after 3 attempts".
\<close>

theorem retry_budget_hardcoded:
  "NewClient (Inr (remote_always (APIError ''googleapi: Error 429: Quota exceeded, rateLimitExceeded'')))
      no_token cfg
     = Inr \<lparr>service = remote_always (APIError ''googleapi: Error 429: Quota exceeded, rateLimitExceeded''),
            httpClient = OAuth2Client no_token\<rparr>
   \<and> executeWithRetry
       \<lparr>service = remote_always (APIError ''googleapi: Error 429: Quota exceeded, rateLimitExceeded''),
        httpClient = OAuth2Client no_token\<rparr>
       Background
       (CoursesListCall_Do
          \<lparr>service = remote_always (APIError ''googleapi: Error 429: Quota exceeded, rateLimitExceeded''),
           httpClient = OAuth2Client no_token\<rparr> None)
       \<lparr>clock = 0, requests = [], sleeps = []\<rparr>
     = (Inl (Wrapf ''after 3 attempts: ''
              (APIError ''googleapi: Error 429: Quota exceeded, rateLimitExceeded'')),
        \<lparr>clock = 7 * Second,
         requests = [CoursesList None, CoursesList None, CoursesList None],
         sleeps = [1 * Second, 2 * Second, 4 * Second]\<rparr>)"
  by (simp add: NewClient_def executeWithRetry_def executeWithRetry_loop.simps
        CoursesListCall_Do_def remote_always_def Sleep_def Second_def Let_def
        split: option.splits)

text \<open>
  C4. The claim: a cancellation during a backoff sleep aborts the call promptly with a
  cancellation-class error. The source sleeps with \<^verbatim>\<open>time.Sleep\<close> and looks at the
  context only at the start of an attempt. Against a remote that always answers 429: a
  context cancelled at 0.5 s, during the first sleep, makes the call return at 1 s, when
  that sleep has run to its end; a context cancelled at 5 s, during the sleep after the
  third attempt, makes the call return at 7 s with "after 3 attempts", which is not a
  cancellation error.
\<close>

theorem sleep_outlasts_cancellation:
  "executeWithRetry
       \<lparr>service = remote_always (APIError ''googleapi: Error 429: Quota exceeded, rateLimitExceeded''),
        httpClient = OAuth2Client no_token\<rparr>
       (WithCancel 500000000)
       (CoursesListCall_Do
          \<lparr>service = remote_always (APIError ''googleapi: Error 429: Quota exceeded, rateLimitExceeded''),
           httpClient = OAuth2Client no_token\<rparr> None)
       \<lparr>clock = 0, requests = [], sleeps = []\<rparr>
     = (Inl Canceled,
        \<lparr>clock = 1000000000, requests = [CoursesList None], sleeps = [1000000000]\<rparr>)
   \<and> executeWithRetry
       \<lparr>service = remote_always (APIError ''googleapi: Error 429: Quota exceeded, rateLimitExceeded''),
        httpClient = OAuth2Client no_token\<rparr>
       (WithCancel 5000000000)
       (CoursesListCall_Do
          \<lparr>service = remote_always (APIError ''googleapi: Error 429: Quota exceeded, rateLimitExceeded''),
           httpClient = OAuth2Client no_token\<rparr> None)
       \<lparr>clock = 0, requests = [], sleeps = []\<rparr>
     = (Inl (Wrapf ''after 3 attempts: ''
              (APIError ''googleapi: Error 429: Quota exceeded, rateLimitExceeded'')),
        \<lparr>clock = 7000000000,
         requests = [CoursesList None, CoursesList None, CoursesList None],
         sleeps = [1000000000, 2000000000, 4000000000]\<rparr>)"
  by (simp add: executeWithRetry_def executeWithRetry_loop.simps
        CoursesListCall_Do_def remote_always_def Sleep_def Second_def Let_def)


text \<open>
  C1. The claim: every List or Get call first consults the response cache under the
  fingerprint of the request and, on a hit, returns the cached records without any
  network request. In the source the client has no cache: \<open>Client\<close> has the fields
  \<open>service\<close> and \<open>httpClient\<close> only, and no method of it computes a fingerprint or
  calls \<open>Get\<close> or \<open>Set\<close> of the cache. With a valid entry in the response cache
  under the fingerprint of the course list (\<open>Get\<close> of that key is a hit, with an empty
  list as its payload), \<open>ListCourses\<close> at the same instant still sends its request to
  the remote and returns the remote's record; and a second \<open>ListCourses\<close> right after
  the first, in the state the first one left, sends the same request again: nothing
  was stored by the first call.
\<close>

theorem ListCourses_ignores_cache:
  "GenerateKey ''courses'' [] = ''courses''
 \<and> fst (Get \<lparr>directory = ''/cache'', coursesTTL = 300 * Second, courseworkTTL = 3600 * Second\<rparr>
          (GenerateKey ''courses'' []) 2000
          (\<lambda>d. Dir True [(''courses.json'', File (Marshalled
              \<lparr>Data = ''[]'', CachedAt = 1000, ExpiresAt = 1000 + 300 * Second\<rparr>))]))
     = Inr (Some \<lparr>Data = ''[]'', CachedAt = 1000, ExpiresAt = 1000 + 300 * Second\<rparr>)
 \<and> ListCourses 1
     \<lparr>service = remote_pages
        [\<lparr>Courses = [course_with_id ''1''], NextPageToken = []\<rparr>,
         \<lparr>Courses = [course_with_id ''1''], NextPageToken = []\<rparr>],
      httpClient = OAuth2Client no_token\<rparr>
     Background \<lparr>clock = 2000, requests = [], sleeps = []\<rparr>
   = Some (Inr [convertCourse (course_with_id ''1'')],
           \<lparr>clock = 2000, requests = [CoursesList None], sleeps = []\<rparr>)
 \<and> ListCourses 1
     \<lparr>service = remote_pages
        [\<lparr>Courses = [course_with_id ''1''], NextPageToken = []\<rparr>,
         \<lparr>Courses = [course_with_id ''1''], NextPageToken = []\<rparr>],
      httpClient = OAuth2Client no_token\<rparr>
     Background \<lparr>clock = 2000, requests = [CoursesList None], sleeps = []\<rparr>
   = Some (Inr [convertCourse (course_with_id ''1'')],
           \<lparr>clock = 2000, requests = [CoursesList None, CoursesList None], sleeps = []\<rparr>)"
  by (simp add: GenerateKey_def Get_def ReadFile_def getPath_def ReplaceAll_def Second_def
        ListCourses_def executeWithRetry_def executeWithRetry_loop.simps
        CoursesListCall_Do_def remote_pages_def Let_def)

subsection \<open>Fingerprints\<close>

text \<open>
  C3. The claim: two parameter maps with the same key/value pairs give the same
  fingerprint, whatever the order of their entries. The source joins the entries in
  the order the map iteration yields them and never sorts, so the parameters of the
  repository's own test, \<^verbatim>\<open>{"courseId": "123", "userId": "456"}\<close>, give two different
  keys under the two possible iteration orders, although both orders are the same map.
\<close>

theorem GenerateKey_order_dependent:
  "map_of [(''courseId'', ''123''), (''userId'', ''456'')]
     = map_of [(''userId'', ''456''), (''courseId'', ''123'')]
   \<and> GenerateKey ''courses'' [(''courseId'', ''123''), (''userId'', ''456'')]
       = ''courses&courseId=123&userId=456''
   \<and> GenerateKey ''courses'' [(''userId'', ''456''), (''courseId'', ''123'')]
       = ''courses&userId=456&courseId=123''
   \<and> GenerateKey ''courses'' [(''courseId'', ''123''), (''userId'', ''456'')]
       \<noteq> GenerateKey ''courses'' [(''userId'', ''456''), (''courseId'', ''123'')]"
  by (auto simp: GenerateKey_def fun_eq_iff)

end
